theory Spec2Isabelle
  imports Complex_Main "HOL-Library.Sublist"
begin

section \<open>Conversation data\<close>

text \<open>
  A \<open>Content\<close> is one turn of the conversation. Both of its fields are optional in the
  SDK type the services import, and the code reads them with \<open>?.\<close>, so both are options
  here. Of a \<open>Part\<close> the services read three fields only: the text, and whether a
  function call or a function response is present (any object is truthy).
\<close>

datatype function_call = FunctionCall string

datatype function_response = FunctionResponse string

record part =
  part_text :: "string option"
  functionCall :: "function_call option"
  functionResponse :: "function_response option"

record content =
  role :: "string option"
  parts :: "part list option"

text \<open>A thrown \<open>Error\<close> is a value carrying its message.\<close>

datatype error = Error string

section \<open>The split planner: \<open>findCompressSplitPoint\<close>\<close>

datatype strategy = Percentage | SinceLastPrompt

record SplitPointOptions =
  strategy :: strategy
  minMessagesToCompress :: "int option"
  preserveThreshold :: "real option"

record SplitPointResult =
  splitIndex :: nat
  historyToCompress :: "content list"
  historyToKeep :: "content list"

text \<open>
  The second argument is \<open>number | SplitPointOptions\<close> and the result is
  \<open>number | SplitPointResult | null\<close>; the \<open>throw\<close> is the left summand of the result.
  A JavaScript number is taken as a real here, so \<open>NaN\<close> and the infinities are not
  inputs of the model.
\<close>

datatype fraction_or_options = Fraction real | Options SplitPointOptions

datatype split_return = SplitNumber nat | SplitResult SplitPointResult | SplitNull

text \<open>
  \<open>content.role === 'user' && !content.parts?.some((part) => !!part.functionResponse)\<close>:
  with \<open>parts\<close> undefined the optional call gives \<open>undefined\<close>, whose negation is true.
\<close>

definition hasFunctionResponsePart :: "content \<Rightarrow> bool" where
  "hasFunctionResponsePart c =
     (case parts c of None \<Rightarrow> False
      | Some ps \<Rightarrow> list_ex (\<lambda>p. functionResponse p \<noteq> None) ps)"

definition hasFunctionCallPart :: "content \<Rightarrow> bool" where
  "hasFunctionCallPart c =
     (case parts c of None \<Rightarrow> False
      | Some ps \<Rightarrow> list_ex (\<lambda>p. functionCall p \<noteq> None) ps)"

definition isSplitCandidate :: "content \<Rightarrow> bool" where
  "isSplitCandidate c = (role c = Some ''user'' \<and> \<not> hasFunctionResponsePart c)"

text \<open>
  The \<open>for\<close> loop of the percentage form. It is written twice in the source (lines
  245-257 for the legacy numeric argument, lines 315-331 for the options form) with the
  same body; the two copies differ only in what they wrap around the index they return.
  The loop either returns from the function at index \<open>i\<close> or runs to the end with the
  last split point it has seen.
\<close>

datatype loop_exit = Returned nat | Finished nat

function splitLoop :: "content list \<Rightarrow> nat list \<Rightarrow> real \<Rightarrow> nat \<Rightarrow> nat \<Rightarrow> nat \<Rightarrow> loop_exit" where
  "splitLoop contents charCounts targetCharCount i lastSplitPoint cumulativeCharCount =
     (if i < length contents then
        (if isSplitCandidate (contents ! i) then
           (if targetCharCount \<le> real cumulativeCharCount then Returned i
            else splitLoop contents charCounts targetCharCount (Suc i) i
                   (cumulativeCharCount + charCounts ! i))
         else splitLoop contents charCounts targetCharCount (Suc i) lastSplitPoint
                (cumulativeCharCount + charCounts ! i))
      else Finished lastSplitPoint)"
  by pat_completeness auto
termination
  by (relation "measure (\<lambda>(contents, charCounts, target, i, lastSplit, cumulative). length contents - i)") auto

declare splitLoop.simps [simp del]

text \<open>
  \<open>contents[contents.length - 1]\<close> is \<open>undefined\<close> on the empty history, and then
  \<open>lastContent?.role === 'model'\<close> is false.
\<close>

definition canCompressEverything :: "content list \<Rightarrow> bool" where
  "canCompressEverything contents =
     (case contents of [] \<Rightarrow> False
      | _ \<Rightarrow> role (last contents) = Some ''model'' \<and> \<not> hasFunctionCallPart (last contents))"

text \<open>
  The index both percentage forms settle on, for a target fraction. The weight of a
  message is \<open>JSON.stringify(content).length\<close>; the serialisation of the SDK's type is
  not part of this code, so the length is the parameter \<open>stringifyLength\<close>.
\<close>

definition percentageSplitPoint :: "(content \<Rightarrow> nat) \<Rightarrow> content list \<Rightarrow> real \<Rightarrow> nat" where
  "percentageSplitPoint stringifyLength contents fraction =
     (let charCounts = map stringifyLength contents;
          totalCharCount = foldl (+) 0 charCounts;
          targetCharCount = real totalCharCount * fraction
      in case splitLoop contents charCounts targetCharCount 0 0 0 of
           Returned i \<Rightarrow> i
         | Finished lastSplitPoint \<Rightarrow>
             if canCompressEverything contents then length contents else lastSplitPoint)"

text \<open>
  The backward scan of the since-last-prompt form,
  \<open>for (let i = contents.length - 1; i >= 0; i--)\<close>: the argument is \<open>i + 1\<close>, so the
  scan starts at \<open>length contents\<close> and \<open>0\<close> is the loop's exit with the initial \<open>-1\<close>.
\<close>

fun lastUserLoop :: "content list \<Rightarrow> nat \<Rightarrow> int" where
  "lastUserLoop contents 0 = - 1"
| "lastUserLoop contents (Suc i) =
     (if role (contents ! i) = Some ''user'' then int i else lastUserLoop contents i)"

definition findCompressSplitPoint ::
  "(content \<Rightarrow> nat) \<Rightarrow> content list \<Rightarrow> fraction_or_options \<Rightarrow> error + split_return" where
  "findCompressSplitPoint stringifyLength contents fractionOrOptions =
     (case fractionOrOptions of
        Fraction fraction \<Rightarrow>
          if fraction \<le> 0 \<or> fraction \<ge> 1 then Inl (Error ''Fraction must be between 0 and 1'')
          else Inr (SplitNumber (percentageSplitPoint stringifyLength contents fraction))
      | Options options \<Rightarrow>
          if strategy options = SinceLastPrompt then
            (let lastUserMessageIndex = lastUserLoop contents (length contents)
             in if lastUserMessageIndex \<le> 0 then Inr SplitNull
                else if lastUserMessageIndex <
                          (case minMessagesToCompress options of None \<Rightarrow> 5 | Some m \<Rightarrow> m)
                then Inr SplitNull
                else Inr (SplitResult
                       \<lparr>splitIndex = nat lastUserMessageIndex,
                        historyToCompress = take (nat lastUserMessageIndex) contents,
                        historyToKeep = drop (nat lastUserMessageIndex) contents\<rparr>))
          else
            (let threshold = (case preserveThreshold options of None \<Rightarrow> 3 / 10 | Some t \<Rightarrow> t);
                 fraction = 1 - threshold;
                 i = percentageSplitPoint stringifyLength contents fraction
             in Inr (SplitResult
                  \<lparr>splitIndex = i,
                   historyToCompress = take i contents,
                   historyToKeep = drop i contents\<rparr>)))"

section \<open>Text matching\<close>

text \<open>
  A JavaScript string is a sequence of UTF-16 code units; the model's \<open>char\<close> has eight
  bits, so a \<open>string\<close> here is a JavaScript string whose code units are below 256. Of the
  characters \<open>\s\<close> and \<open>trim\<close> treat as white space, these seven are in that range.
\<close>

definition isWhiteSpace :: "char \<Rightarrow> bool" where
  "isWhiteSpace c =
     (c \<in> set [CHR 0x09, CHR 0x0A, CHR 0x0B, CHR 0x0C, CHR 0x0D, CHR 0x20, CHR 0xA0])"

definition trim :: "string \<Rightarrow> string" where
  "trim s = rev (dropWhile isWhiteSpace (rev (dropWhile isWhiteSpace s)))"

text \<open>
  Both regular expressions of the services have the shape
  \<open>OPEN \s* (.*?) \s* CLOSE\<close> where the group matches any character
  (\<open>.\<close> under the \<open>s\<close> flag, or \<open>[\s\S]\<close>). The lazy group grows one character at a time
  until \<open>\s* CLOSE\<close> matches what follows; \<open>lazyGroup\<close> returns the group and the text
  after the match. \<open>CLOSE\<close> starts with \<open><\<close>, so \<open>\s*\<close> before it takes all the white
  space there is.
\<close>

fun lazyGroup :: "string \<Rightarrow> string \<Rightarrow> string \<Rightarrow> (string \<times> string) option" where
  "lazyGroup close captured [] = (if close = [] then Some (rev captured, []) else None)"
| "lazyGroup close captured (c # cs) =
     (if prefix close (dropWhile isWhiteSpace (c # cs))
      then Some (rev captured, drop (length close) (dropWhile isWhiteSpace (c # cs)))
      else lazyGroup close (c # captured) cs)"

text \<open>
  \<open>regexExec\<close> is one \<open>exec\<close> (or \<open>match\<close>) of such an expression on the text that is left:
  the leftmost position where \<open>OPEN\<close> stands and the rest of the expression matches.
  The white space after \<open>OPEN\<close> is taken greedily; giving some of it back could not
  help a failed match, since \<open>CLOSE\<close> would still have to be found after it.
\<close>

fun regexExec :: "string \<Rightarrow> string \<Rightarrow> string \<Rightarrow> (string \<times> string) option" where
  "regexExec opn close [] = None"
| "regexExec opn close (c # cs) =
     (if prefix opn (c # cs) then
        (case lazyGroup close [] (dropWhile isWhiteSpace (drop (length opn) (c # cs))) of
           Some m \<Rightarrow> Some m
         | None \<Rightarrow> regexExec opn close cs)
      else regexExec opn close cs)"

section \<open>The goal extractor: \<open>GoalExtractionService\<close>\<close>

record GoalExtractionResult =
  goals :: "string list"
  confidence :: string
  error :: "string option"

record GoalExtractionOptions =
  maxMessages :: "int option"
  timeoutMs :: "int option"












section \<open>The selection coordinator\<close>



record CompressionOptions =
  userGoal :: "string option"
  preserveStrategy :: "strategy option"
  optionsPreserveThreshold :: "real option"




section \<open>The compaction executor: \<open>ChatCompressionService.compress\<close>\<close>

datatype CompressionStatus =
  COMPRESSED
| COMPRESSION_FAILED_INFLATED_TOKEN_COUNT
| COMPRESSION_FAILED_TOKEN_COUNT_ERROR
| NOOP

record ChatCompressionInfo =
  originalTokenCount :: int
  newTokenCount :: int
  compressionStatus :: CompressionStatus
  messagesPreserved :: "nat option"
  messagesCompressed :: "nat option"
  goalWasSelected :: "bool option"
  discardedContextSummary :: "string option"

record GeminiChat =
  curatedHistory :: "content list"
  lastPromptTokenCount :: int

text \<open>
  What \<open>compress\<close> calls outside this code. Each asynchronous collaborator either answers
  or rejects. \<open>summarize\<close> is \<open>config.getBaseLlmClient().generateContent\<close> followed by
  \<open>getResponseText\<close>; it is given the model, the request's contents and the user's goal
  (which \<open>getChatCompressionPrompt\<close> turns into the system instruction).
\<close>

record Collaborators =
  jsonLength :: "content \<Rightarrow> nat"
  tokenLimit :: "string \<Rightarrow> int"
  compressionThreshold :: "real option"
  summarize :: "string \<Rightarrow> content list \<Rightarrow> string option \<Rightarrow> error + string option"
  getInitialChatHistory :: "content list \<Rightarrow> error + content list"
  calculateRequestTokenCount :: "part list \<Rightarrow> error + int"
  newGeminiChat :: "content list \<Rightarrow> error + GeminiChat"

text \<open>What the outside sees of a call of \<open>compress\<close>, in order.\<close>

datatype effect =
  SummarizationCall "content list"
| ChatCompressionEvent int int bool nat nat strategy

definition DEFAULT_COMPRESSION_TOKEN_THRESHOLD :: real where
  "DEFAULT_COMPRESSION_TOKEN_THRESHOLD = 5 / 10"

definition COMPRESSION_PRESERVE_THRESHOLD :: real where
  "COMPRESSION_PRESERVE_THRESHOLD = 3 / 10"

definition extractDiscardedContextSummary :: "string \<Rightarrow> string option" where
  "extractDiscardedContextSummary text =
     (case regexExec ''<discarded_context_summary>'' ''</discarded_context_summary>'' text of
        None \<Rightarrow> None
      | Some (captured, rest) \<Rightarrow> Some (trim captured))"

definition textContent :: "string \<Rightarrow> string \<Rightarrow> content" where
  "textContent r t =
     \<lparr>role = Some r,
      parts = Some [\<lparr>part_text = Some t, functionCall = None, functionResponse = None\<rparr>]\<rparr>"

text \<open>
  Lines 414-457 of \<open>compress\<close>: the two histories the split gives, or the error
  \<open>findCompressSplitPoint\<close> throws. A result that is \<open>null\<close> or a number sends the
  since-last-prompt strategy to the percentage form.
\<close>

definition numberOrZero :: "split_return \<Rightarrow> nat" where
  "numberOrZero splitPoint = (case splitPoint of SplitNumber n \<Rightarrow> n | _ \<Rightarrow> 0)"

definition splitHistory ::
  "(content \<Rightarrow> nat) \<Rightarrow> content list \<Rightarrow> CompressionOptions option
     \<Rightarrow> error + content list \<times> content list" where
  "splitHistory stringifyLength history options =
     (let chosen = (case options of None \<Rightarrow> Percentage
                    | Some opts \<Rightarrow> (case preserveStrategy opts of None \<Rightarrow> Percentage | Some st \<Rightarrow> st))
      in if chosen = SinceLastPrompt then
           (case findCompressSplitPoint stringifyLength history
                   (Options \<lparr>strategy = SinceLastPrompt, minMessagesToCompress = Some 5,
                             preserveThreshold = None\<rparr>) of
              Inl e \<Rightarrow> Inl e
            | Inr (SplitResult splitResult) \<Rightarrow>
                Inr (historyToCompress splitResult, historyToKeep splitResult)
            | Inr other \<Rightarrow>
                (case findCompressSplitPoint stringifyLength history
                        (Fraction (1 - COMPRESSION_PRESERVE_THRESHOLD)) of
                   Inl e \<Rightarrow> Inl e
                 | Inr splitPoint \<Rightarrow>
                     Inr (take (numberOrZero splitPoint) history,
                          drop (numberOrZero splitPoint) history)))
         else
           (case findCompressSplitPoint stringifyLength history
                   (Fraction (1 - (case options of None \<Rightarrow> COMPRESSION_PRESERVE_THRESHOLD
                                   | Some opts \<Rightarrow>
                                       (case optionsPreserveThreshold opts of
                                          None \<Rightarrow> COMPRESSION_PRESERVE_THRESHOLD
                                        | Some t \<Rightarrow> t)))) of
              Inl e \<Rightarrow> Inl e
            | Inr splitPoint \<Rightarrow>
                Inr (take (numberOrZero splitPoint) history,
                     drop (numberOrZero splitPoint) history)))"

definition noopInfo :: "int \<Rightarrow> int \<Rightarrow> ChatCompressionInfo" where
  "noopInfo original new =
     \<lparr>originalTokenCount = original, newTokenCount = new, compressionStatus = NOOP,
      messagesPreserved = None, messagesCompressed = None, goalWasSelected = None,
      discardedContextSummary = None\<rparr>"

text \<open>
  Lines 473-556: the summarization call and what follows it, for a non-empty
  \<open>historyToCompress\<close>. \<open>!!userGoal\<close> is true of a non-empty string.
\<close>

definition summarizeAndValidate ::
  "Collaborators \<Rightarrow> string \<Rightarrow> int \<Rightarrow> CompressionOptions option \<Rightarrow> content list \<Rightarrow> content list
     \<Rightarrow> effect list \<times> (error + content list option \<times> ChatCompressionInfo)" where
  "summarizeAndValidate env model original options toCompress toKeep =
     (let goal = (case options of None \<Rightarrow> None | Some opts \<Rightarrow> userGoal opts);
          chosen = (case options of None \<Rightarrow> Percentage
                    | Some opts \<Rightarrow> (case preserveStrategy opts of None \<Rightarrow> Percentage | Some st \<Rightarrow> st));
          goalSelected = (goal \<noteq> None \<and> goal \<noteq> Some []);
          request = toCompress @
            [textContent ''user'' ''First, reason in your scratchpad. Then, generate the <state_snapshot>.'']
      in case summarize env model request goal of
           Inl e \<Rightarrow> ([SummarizationCall request], Inl e)
         | Inr response \<Rightarrow>
             (let summary = (case response of None \<Rightarrow> [] | Some t \<Rightarrow> t);
                  discarded = extractDiscardedContextSummary summary;
                  extraHistory =
                    [textContent ''user'' summary,
                     textContent ''model'' ''Got it. Thanks for the additional context!''] @ toKeep
              in case getInitialChatHistory env extraHistory of
                   Inl e \<Rightarrow> ([SummarizationCall request], Inl e)
                 | Inr fullNewHistory \<Rightarrow>
                     (case calculateRequestTokenCount env
                             (concat (map (\<lambda>c. case parts c of None \<Rightarrow> [] | Some ps \<Rightarrow> ps)
                                          fullNewHistory)) of
                        Inl e \<Rightarrow> ([SummarizationCall request], Inl e)
                      | Inr new \<Rightarrow>
                          ([SummarizationCall request,
                            ChatCompressionEvent original new goalSelected (length toKeep)
                              (length toCompress) chosen],
                           Inr (if new > original then
                                  (None,
                                   \<lparr>originalTokenCount = original, newTokenCount = new,
                                    compressionStatus = COMPRESSION_FAILED_INFLATED_TOKEN_COUNT,
                                    messagesPreserved = Some (length toKeep),
                                    messagesCompressed = Some (length toCompress),
                                    goalWasSelected = Some goalSelected,
                                    discardedContextSummary = discarded\<rparr>)
                                else
                                  (Some extraHistory,
                                   \<lparr>originalTokenCount = original, newTokenCount = new,
                                    compressionStatus = COMPRESSED,
                                    messagesPreserved = Some (length toKeep),
                                    messagesCompressed = Some (length toCompress),
                                    goalWasSelected = Some goalSelected,
                                    discardedContextSummary = discarded\<rparr>))))))"

text \<open>
  \<open>compress(chat, promptId, force, model, config, hasFailedCompressionAttempt, options)\<close>.
  The result is what the outside saw of the call, and the value it returned or the
  error it threw.
\<close>

definition compress ::
  "Collaborators \<Rightarrow> GeminiChat \<Rightarrow> bool \<Rightarrow> string \<Rightarrow> bool \<Rightarrow> CompressionOptions option
     \<Rightarrow> effect list \<times> (error + content list option \<times> ChatCompressionInfo)" where
  "compress env chat force model failedBefore options =
     (if length (curatedHistory chat) = 0 \<or> (failedBefore \<and> \<not> force) then
        ([], Inr (None, noopInfo 0 0))
      else
        (let original = lastPromptTokenCount chat;
             threshold = (case compressionThreshold env of
                            None \<Rightarrow> DEFAULT_COMPRESSION_TOKEN_THRESHOLD | Some t \<Rightarrow> t)
         in if \<not> force \<and> real_of_int original < threshold * real_of_int (tokenLimit env model) then
              ([], Inr (None, noopInfo original original))
            else
              (case splitHistory (jsonLength env) (curatedHistory chat) options of
                 Inl e \<Rightarrow> ([], Inl e)
               | Inr (toCompress, toKeep) \<Rightarrow>
                   if length toCompress = 0 then
                     ([], Inr (None, noopInfo original original))
                   else summarizeAndValidate env model original options toCompress toKeep)))"

section \<open>The client: trigger evaluation, selection handling and the compression lock\<close>

text \<open>
  The named configuration values the client reads and the opt-outs write. The file
  that stores them is not part of this code; the record is the configuration's
  current content.
\<close>

record Config =
  compressionTriggerTokens :: real
  compressionTriggerUtilization :: real
  compressionMinMessages :: real
  compressionMinTimeBetweenPrompts :: real
  compressionFrequencyMultiplier :: real
  compressionInteractive :: bool
  deliberateCompressionEnabled :: bool
  deliberateCompressionAutoSkip :: bool

record GeminiClient =
  chat :: GeminiChat
  config :: Config
  hasFailedCompressionAttempt :: bool
  messagesSinceLastCompress :: int
  lastCompressionTime :: int
  isCompressing :: bool
  forceFullIdeContext :: bool

record TriggerDecision =
  shouldCompress :: bool
  reason :: string
  isSafetyValve :: bool

text \<open>
  \<open>utilization >= utilizationThreshold\<close> with \<open>utilization = currentTokens / modelLimit\<close>.
  A division by zero does not fail in JavaScript: a positive count over zero is
  \<open>Infinity\<close>, which is at least any threshold; zero over zero is \<open>NaN\<close> and a negative
  count over zero is \<open>-Infinity\<close>, and neither is at least a threshold.
\<close>

definition utilizationAtLeast :: "int \<Rightarrow> int \<Rightarrow> real \<Rightarrow> bool" where
  "utilizationAtLeast currentTokens modelLimit utilizationThreshold =
     (if modelLimit = 0 then currentTokens > 0
      else real_of_int currentTokens / real_of_int modelLimit \<ge> utilizationThreshold)"

text \<open>
  \<open>shouldTriggerCompression\<close>: \<open>modelLimit\<close> is \<open>tokenLimit(model)\<close> for the model of the
  current turn and \<open>now\<close> is \<open>Date.now()\<close>, in milliseconds.
\<close>

definition shouldTriggerCompression :: "GeminiClient \<Rightarrow> int \<Rightarrow> int \<Rightarrow> TriggerDecision" where
  "shouldTriggerCompression client modelLimit now =
     (if isCompressing client then
        \<lparr>shouldCompress = False, reason = ''compression_in_progress'', isSafetyValve = False\<rparr>
      else
        (let currentTokens = lastPromptTokenCount (chat client);
             tokenThreshold = compressionTriggerTokens (config client);
             minMessages = compressionMinMessages (config client);
             utilizationThreshold = compressionTriggerUtilization (config client)
         in if utilizationAtLeast currentTokens modelLimit utilizationThreshold then
              \<lparr>shouldCompress = True, reason = ''utilization_threshold'', isSafetyValve = True\<rparr>
            else if real_of_int currentTokens < tokenThreshold then
              \<lparr>shouldCompress = False, reason = ''below_token_threshold'', isSafetyValve = False\<rparr>
            else if real_of_int (messagesSinceLastCompress client) < minMessages then
              \<lparr>shouldCompress = False, reason = ''message_guard_failed'', isSafetyValve = False\<rparr>
            else
              (let minTimeBetween = compressionMinTimeBetweenPrompts (config client);
                   timeSinceLastCompress = real_of_int (now - lastCompressionTime client) / 1000
               in if lastCompressionTime client > 0 \<and> timeSinceLastCompress < minTimeBetween then
                    \<lparr>shouldCompress = False, reason = ''time_guard_failed'', isSafetyValve = False\<rparr>
                  else
                    \<lparr>shouldCompress = True, reason = ''absolute_tokens'', isSafetyValve = False\<rparr>)))"

text \<open>
  The decision table of section 4.1 of the specification, in its words: six rules,
  each a condition and the decision it gives; the first rule whose condition holds
  decides. \<open>specTriggerRules\<close> follows the specification, not the code, and is what
  \<open>shouldTriggerCompression\<close> is compared with.
\<close>

definition specTriggerRules ::
  "bool \<Rightarrow> int \<Rightarrow> int \<Rightarrow> real \<Rightarrow> real \<Rightarrow> real \<Rightarrow> real \<Rightarrow> real \<Rightarrow> bool \<Rightarrow> real
     \<Rightarrow> (bool \<times> TriggerDecision) list" where
  "specTriggerRules inProgress currentTokens maxTokens triggerUtilization triggerTokens
       messagesSince minMessages minTimeBetweenSeconds priorCompaction elapsedSeconds =
     [(inProgress,
       \<lparr>shouldCompress = False, reason = ''compression_in_progress'', isSafetyValve = False\<rparr>),
      (utilizationAtLeast currentTokens maxTokens triggerUtilization,
       \<lparr>shouldCompress = True, reason = ''utilization_threshold'', isSafetyValve = True\<rparr>),
      (real_of_int currentTokens < triggerTokens,
       \<lparr>shouldCompress = False, reason = ''below_token_threshold'', isSafetyValve = False\<rparr>),
      (messagesSince < minMessages,
       \<lparr>shouldCompress = False, reason = ''message_guard_failed'', isSafetyValve = False\<rparr>),
      (priorCompaction \<and> elapsedSeconds < minTimeBetweenSeconds,
       \<lparr>shouldCompress = False, reason = ''time_guard_failed'', isSafetyValve = False\<rparr>),
      (True,
       \<lparr>shouldCompress = True, reason = ''absolute_tokens'', isSafetyValve = False\<rparr>)]"

fun firstMatch :: "(bool \<times> 'a) list \<Rightarrow> 'a option" where
  "firstMatch [] = None"
| "firstMatch ((condition, decision) # rules) =
     (if condition then Some decision else firstMatch rules)"






text \<open>
  An asynchronous method gives control away at each \<open>await\<close>; other work of the session
  runs there and sees the client as it is at that moment. A run is described by the
  client's state at each such point, in order, then the state the run leaves and what
  it returns or throws.
\<close>

datatype suspension =
  AwaitingGoalExtraction
| AwaitingUserSelection
| AwaitingCompress
| AwaitingStartChat

type_synonym 'a run = "(suspension \<times> GeminiClient) list \<times> GeminiClient \<times> (error + 'a)"




section \<open>Properties stated on the model, and example values\<close>

text \<open>
  A split index is a valid boundary when it is zero, or the index of a user message
  with no function response among its parts, or the length of the history when the
  last message is a model message with no function call among its parts.
\<close>

definition validBoundary :: "content list \<Rightarrow> nat \<Rightarrow> bool" where
  "validBoundary contents i =
     (i = 0
      \<or> (i < length contents \<and> role (contents ! i) = Some ''user''
           \<and> \<not> hasFunctionResponsePart (contents ! i))
      \<or> (i = length contents \<and> contents \<noteq> [] \<and> role (last contents) = Some ''model''
           \<and> \<not> hasFunctionCallPart (last contents)))"

definition functionCallContent :: "string \<Rightarrow> string \<Rightarrow> content" where
  "functionCallContent r name =
     \<lparr>role = Some r,
      parts = Some [\<lparr>part_text = None, functionCall = Some (FunctionCall name),
                     functionResponse = None\<rparr>]\<rparr>"

text \<open>The history of the test "should return earlier splitpoint if no valid ones are after threshold".\<close>

definition exampleToolHistory :: "content list" where
  "exampleToolHistory =
     [textContent ''user'' ''This is the first message.'',
      textContent ''model'' ''This is the second message.'',
      textContent ''user'' ''This is the third message.'',
      functionCallContent ''model'' ''foo'']"

text \<open>The ten messages of the test "should split at last user message": the last user message is at index 8.\<close>

definition exampleTenMessages :: "content list" where
  "exampleTenMessages =
     [textContent ''user'' ''msg 1'', textContent ''model'' ''response 1'',
      textContent ''user'' ''msg 2'', textContent ''model'' ''response 2'',
      textContent ''user'' ''msg 3'', textContent ''model'' ''response 3'',
      textContent ''user'' ''msg 4'', textContent ''model'' ''response 4'',
      textContent ''user'' ''msg 5'', textContent ''model'' ''response 5'']"





text \<open>Collaborators for the examples: every message weighs ten characters, the model's limit is a million tokens, the summary is fixed and the recomputed token count is \<open>counted\<close>.\<close>

definition tenChars :: "content \<Rightarrow> nat" where
  "tenChars c = 10"

definition exampleSummary :: string where
  "exampleSummary = ''<state_snapshot><discarded_context_summary> greetings </discarded_context_summary></state_snapshot>''"

definition exampleCollaborators :: "int \<Rightarrow> Collaborators" where
  "exampleCollaborators counted =
     \<lparr>jsonLength = tenChars,
      tokenLimit = (\<lambda>model. 1000000),
      compressionThreshold = None,
      summarize = (\<lambda>model request goal. Inr (Some exampleSummary)),
      getInitialChatHistory = Inr,
      calculateRequestTokenCount = (\<lambda>ps. Inr counted),
      newGeminiChat = (\<lambda>history. Inr \<lparr>curatedHistory = history, lastPromptTokenCount = counted\<rparr>)\<rparr>"

definition exampleTwoMessages :: "content list" where
  "exampleTwoMessages = [textContent ''user'' ''msg1'', textContent ''model'' ''msg2'']"

definition exampleChat :: "content list \<Rightarrow> int \<Rightarrow> GeminiChat" where
  "exampleChat history tokens = \<lparr>curatedHistory = history, lastPromptTokenCount = tokens\<rparr>"

definition exampleRequest :: "content list" where
  "exampleRequest = exampleTwoMessages @
     [textContent ''user'' ''First, reason in your scratchpad. Then, generate the <state_snapshot>.'']"

definition exampleNewHistory :: "content list" where
  "exampleNewHistory =
     [textContent ''user'' exampleSummary,
      textContent ''model'' ''Got it. Thanks for the additional context!'']"

definition exampleInfo :: "int \<Rightarrow> int \<Rightarrow> CompressionStatus \<Rightarrow> ChatCompressionInfo" where
  "exampleInfo original new status =
     \<lparr>originalTokenCount = original, newTokenCount = new, compressionStatus = status,
      messagesPreserved = Some 0, messagesCompressed = Some 2, goalWasSelected = Some False,
      discardedContextSummary = Some ''greetings''\<rparr>"

text \<open>The default values of the configuration, as section 6 of the specification lists them.\<close>

definition exampleConfig :: Config where
  "exampleConfig =
     \<lparr>compressionTriggerTokens = 40000, compressionTriggerUtilization = 5 / 10,
      compressionMinMessages = 25, compressionMinTimeBetweenPrompts = 300,
      compressionFrequencyMultiplier = 15 / 10, compressionInteractive = True,
      deliberateCompressionEnabled = True, deliberateCompressionAutoSkip = False\<rparr>"

definition exampleClient :: "content list \<Rightarrow> int \<Rightarrow> int \<Rightarrow> GeminiClient" where
  "exampleClient history tokens messages =
     \<lparr>chat = \<lparr>curatedHistory = history, lastPromptTokenCount = tokens\<rparr>,
      config = exampleConfig, hasFailedCompressionAttempt = False,
      messagesSinceLastCompress = messages, lastCompressionTime = 0,
      isCompressing = False, forceFullIdeContext = False\<rparr>"





section \<open>The split planner\<close>

lemma splitLoop_Returned:
  "splitLoop cs cc t i l c = Returned j \<Longrightarrow> j < length cs \<and> isSplitCandidate (cs ! j)"
proof (induction cs cc t i l c rule: splitLoop.induct)
  case (1 cs cc t i l c)
  from "1.prems" show ?case
    by (subst (asm) splitLoop.simps) (auto split: if_splits dest: "1.IH")
qed

lemma splitLoop_Finished:
  "splitLoop cs cc t i l c = Finished j \<Longrightarrow>
   l = 0 \<or> (l < length cs \<and> isSplitCandidate (cs ! l)) \<Longrightarrow>
   j = 0 \<or> (j < length cs \<and> isSplitCandidate (cs ! j))"
proof (induction cs cc t i l c rule: splitLoop.induct)
  case (1 cs cc t i l c)
  from "1.prems" show ?case
    by (subst (asm) splitLoop.simps) (auto split: if_splits dest: "1.IH")
qed

lemma percentageSplitPoint_valid:
  "validBoundary contents (percentageSplitPoint w contents fraction)"
proof -
  let ?loop = "splitLoop contents (map w contents)
                 (real (foldl (+) 0 (map w contents)) * fraction) 0 0 0"
  show ?thesis
  proof (cases ?loop)
    case (Returned i)
    from splitLoop_Returned [OF Returned] Returned show ?thesis
      by (simp add: percentageSplitPoint_def validBoundary_def isSplitCandidate_def)
  next
    case (Finished l)
    from splitLoop_Finished [OF Finished]
    have "l = 0 \<or> (l < length contents \<and> isSplitCandidate (contents ! l))"
      by simp
    with Finished show ?thesis
      by (auto simp add: percentageSplitPoint_def validBoundary_def isSplitCandidate_def
            canCompressEverything_def split: list.splits)
  qed
qed

lemmas split_eval =
  findCompressSplitPoint_def percentageSplitPoint_def splitLoop.simps textContent_def
  isSplitCandidate_def canCompressEverything_def hasFunctionCallPart_def
  hasFunctionResponsePart_def functionCallContent_def

text \<open>
  Claim C8. Whatever the history, the weights and the fraction, the index the
  percentage strategy returns is a valid boundary: the legacy numeric form, when it
  returns, returns such an index as a number; the options form always returns a split
  result whose index is such a boundary and whose two histories are the history cut
  there. So the kept part starts at the beginning, at a user message that carries no
  function response, or is empty after a final model message that carries no function
  call.
\<close>

theorem percentage_split_is_valid_boundary:
  "(\<forall>r. findCompressSplitPoint w contents (Fraction fraction) = Inr r \<longrightarrow>
      (\<exists>i. r = SplitNumber i \<and> validBoundary contents i)) \<and>
   (strategy options = Percentage \<longrightarrow>
      (\<exists>r. findCompressSplitPoint w contents (Options options) = Inr (SplitResult r) \<and>
           validBoundary contents (splitIndex r) \<and>
           historyToCompress r = take (splitIndex r) contents \<and>
           historyToKeep r = drop (splitIndex r) contents))"
  by (auto simp add: findCompressSplitPoint_def percentageSplitPoint_valid Let_def
        split: if_splits)

theorem percentage_split_is_valid_boundary_witness:
  "findCompressSplitPoint (\<lambda>c. 10) exampleToolHistory (Fraction (99 / 100)) =
     Inr (SplitNumber 2) \<and>
   validBoundary exampleToolHistory 2 \<and>
   (\<exists>r. findCompressSplitPoint (\<lambda>c. 10) exampleToolHistory
          (Options \<lparr>strategy = Percentage, minMessagesToCompress = None,
                    preserveThreshold = None\<rparr>) = Inr (SplitResult r) \<and>
        validBoundary exampleToolHistory (splitIndex r))"
proof -
  have run: "findCompressSplitPoint (\<lambda>c. 10) exampleToolHistory (Fraction (99 / 100)) =
      Inr (SplitNumber 2)"
    by (simp add: split_eval exampleToolHistory_def)
  from percentage_split_is_valid_boundary [of "\<lambda>c. 10" exampleToolHistory "99 / 100"
         "\<lparr>strategy = Percentage, minMessagesToCompress = None, preserveThreshold = None\<rparr>"] run
  show ?thesis by auto
qed

lemma lastUserLoop_none:
  "(\<forall>i<n. role (cs ! i) \<noteq> Some ''user'') \<Longrightarrow> lastUserLoop cs n = - 1"
  by (induction n) auto

lemma lastUserLoop_last:
  "k < n \<Longrightarrow> role (cs ! k) = Some ''user'' \<Longrightarrow>
   (\<forall>j. k < j \<and> j < n \<longrightarrow> role (cs ! j) \<noteq> Some ''user'') \<Longrightarrow> lastUserLoop cs n = int k"
proof (induction n)
  case 0
  then show ?case by simp
next
  case (Suc n)
  show ?case
  proof (cases "k = n")
    case True
    with Suc.prems show ?thesis by simp
  next
    case False
    with Suc.prems have "k < n" by simp
    moreover from Suc.prems False have "role (cs ! n) \<noteq> Some ''user''" by auto
    ultimately show ?thesis using Suc by simp
  qed
qed

text \<open>
  Claim C3. With the since-last-prompt strategy and \<open>minMessagesToCompress = 5\<close>: a
  history with no user message gives \<open>null\<close>; and when \<open>k\<close> is the index of the last
  user message, the result is the split at \<open>k\<close> (the first \<open>k\<close> messages to compress,
  the messages from \<open>k\<close> on to keep) if \<open>k \<ge> 5\<close>, and \<open>null\<close> if \<open>k < 5\<close>, which covers
  \<open>k = 0\<close>.
\<close>

theorem since_last_prompt_split:
  assumes "strategy options = SinceLastPrompt"
    and "minMessagesToCompress options = Some 5"
  shows "((\<forall>i<length contents. role (contents ! i) \<noteq> Some ''user'') \<longrightarrow>
            findCompressSplitPoint w contents (Options options) = Inr SplitNull) \<and>
         (k < length contents \<and> role (contents ! k) = Some ''user'' \<and>
            (\<forall>j. k < j \<and> j < length contents \<longrightarrow> role (contents ! j) \<noteq> Some ''user'') \<longrightarrow>
            findCompressSplitPoint w contents (Options options) =
              (if k \<ge> 5
               then Inr (SplitResult \<lparr>splitIndex = k, historyToCompress = take k contents,
                                      historyToKeep = drop k contents\<rparr>)
               else Inr SplitNull))"
proof (intro conjI impI)
  assume "\<forall>i<length contents. role (contents ! i) \<noteq> Some ''user''"
  then have "lastUserLoop contents (length contents) = - 1"
    by (rule lastUserLoop_none)
  with assms show "findCompressSplitPoint w contents (Options options) = Inr SplitNull"
    by (simp add: findCompressSplitPoint_def)
next
  assume k: "k < length contents \<and> role (contents ! k) = Some ''user'' \<and>
            (\<forall>j. k < j \<and> j < length contents \<longrightarrow> role (contents ! j) \<noteq> Some ''user'')"
  then have "lastUserLoop contents (length contents) = int k"
    by (intro lastUserLoop_last) auto
  with assms show "findCompressSplitPoint w contents (Options options) =
              (if k \<ge> 5
               then Inr (SplitResult \<lparr>splitIndex = k, historyToCompress = take k contents,
                                      historyToKeep = drop k contents\<rparr>)
               else Inr SplitNull)"
    by (auto simp add: findCompressSplitPoint_def Let_def)
qed

theorem since_last_prompt_split_witness:
  "findCompressSplitPoint (\<lambda>c. 10) exampleTenMessages
     (Options \<lparr>strategy = SinceLastPrompt, minMessagesToCompress = Some 5,
               preserveThreshold = None\<rparr>) =
     Inr (SplitResult \<lparr>splitIndex = 8, historyToCompress = take 8 exampleTenMessages,
                        historyToKeep = drop 8 exampleTenMessages\<rparr>) \<and>
   length (take 8 exampleTenMessages) = 8 \<and> length (drop 8 exampleTenMessages) = 2 \<and>
   findCompressSplitPoint (\<lambda>c. 10) (take 4 exampleTenMessages)
     (Options \<lparr>strategy = SinceLastPrompt, minMessagesToCompress = Some 5,
               preserveThreshold = None\<rparr>) = Inr SplitNull"
proof -
  let ?options = "\<lparr>strategy = SinceLastPrompt, minMessagesToCompress = Some 5,
                    preserveThreshold = None\<rparr>"
  have later: "\<not> (8 < j \<and> j < 10) \<or> j = 9" for j :: nat
    by arith
  have early: "\<not> (2 < j \<and> j < 4) \<or> j = 3" for j :: nat
    by arith
  have "findCompressSplitPoint (\<lambda>c. 10) exampleTenMessages (Options ?options) =
     Inr (SplitResult \<lparr>splitIndex = 8, historyToCompress = take 8 exampleTenMessages,
                        historyToKeep = drop 8 exampleTenMessages\<rparr>)"
    using since_last_prompt_split [where options = ?options and k = 8
        and contents = exampleTenMessages and w = "\<lambda>c. 10"] later
    by (auto simp add: exampleTenMessages_def textContent_def)
  moreover have "findCompressSplitPoint (\<lambda>c. 10) (take 4 exampleTenMessages) (Options ?options) =
     Inr SplitNull"
    using since_last_prompt_split [where options = ?options and k = 2
        and contents = "take 4 exampleTenMessages" and w = "\<lambda>c. 10"] early
    by (auto simp add: exampleTenMessages_def textContent_def)
  ultimately show ?thesis
    by (simp add: exampleTenMessages_def)
qed

text \<open>
  Claim C10. Called with a number, \<open>findCompressSplitPoint\<close> throws exactly when the
  fraction is at most 0 or at least 1; for a fraction strictly between 0 and 1 it
  returns, and what it returns is a number.
\<close>

theorem legacy_fraction_precondition:
  "(fraction \<le> 0 \<or> fraction \<ge> 1 \<longrightarrow>
      findCompressSplitPoint w contents (Fraction fraction) =
        Inl (Error ''Fraction must be between 0 and 1'')) \<and>
   (0 < fraction \<and> fraction < 1 \<longrightarrow>
      (\<exists>n. findCompressSplitPoint w contents (Fraction fraction) = Inr (SplitNumber n)))"
  by (auto simp add: findCompressSplitPoint_def)

theorem legacy_fraction_precondition_witness:
  "findCompressSplitPoint (\<lambda>c. 10) [] (Fraction 0) =
     Inl (Error ''Fraction must be between 0 and 1'') \<and>
   findCompressSplitPoint (\<lambda>c. 10) [] (Fraction 1) =
     Inl (Error ''Fraction must be between 0 and 1'') \<and>
   (\<exists>n. findCompressSplitPoint (\<lambda>c. 10) [] (Fraction (1 / 2)) = Inr (SplitNumber n))"
  using legacy_fraction_precondition [of 0 "\<lambda>c. 10" "[]"]
    legacy_fraction_precondition [of 1 "\<lambda>c. 10" "[]"]
    legacy_fraction_precondition [of "1 / 2" "\<lambda>c. 10" "[]"]
  by simp

section \<open>The trigger evaluator\<close>

text \<open>
  Claim C2. \<open>shouldTriggerCompression\<close> is the first match of the six rules of the
  specification, in their order: compaction in progress, utilization safety valve,
  token threshold, message guard, time guard, otherwise trigger. In particular, when no
  compaction is in progress and the utilization is at least the threshold, the decision
  is \<open>shouldCompress = true\<close>, \<open>isSafetyValve = true\<close>, reason \<open>utilization_threshold\<close>,
  whatever the message counter and the time of the last compaction are.
\<close>

theorem trigger_first_match:
  "Some (shouldTriggerCompression client modelLimit now) =
     firstMatch (specTriggerRules (isCompressing client) (lastPromptTokenCount (chat client))
       modelLimit (compressionTriggerUtilization (config client))
       (compressionTriggerTokens (config client))
       (real_of_int (messagesSinceLastCompress client))
       (compressionMinMessages (config client))
       (compressionMinTimeBetweenPrompts (config client))
       (lastCompressionTime client > 0)
       (real_of_int (now - lastCompressionTime client) / 1000)) \<and>
   (\<not> isCompressing client \<and>
    utilizationAtLeast (lastPromptTokenCount (chat client)) modelLimit
      (compressionTriggerUtilization (config client)) \<longrightarrow>
    shouldTriggerCompression client modelLimit now =
      \<lparr>shouldCompress = True, reason = ''utilization_threshold'', isSafetyValve = True\<rparr>)"
  by (simp add: shouldTriggerCompression_def specTriggerRules_def Let_def)

theorem trigger_first_match_witness:
  "\<not> isCompressing (exampleClient [] 520000 2) \<and>
   utilizationAtLeast 520000 1000000 (5 / 10) \<and>
   shouldTriggerCompression (exampleClient [] 520000 2) 1000000 0 =
     \<lparr>shouldCompress = True, reason = ''utilization_threshold'', isSafetyValve = True\<rparr> \<and>
   shouldTriggerCompression (exampleClient [] 45000 20) 1000000 0 =
     \<lparr>shouldCompress = False, reason = ''message_guard_failed'', isSafetyValve = False\<rparr>"
  using trigger_first_match [of "exampleClient [] 520000 2" 1000000 0]
    trigger_first_match [of "exampleClient [] 45000 20" 1000000 0]
  by (simp add: exampleClient_def exampleConfig_def utilizationAtLeast_def specTriggerRules_def)

section \<open>The less-frequent choice\<close>






section \<open>The goal extractor\<close>
















section \<open>The compaction executor\<close>

lemma summarizeAndValidate_status:
  "summarizeAndValidate env model original options toCompress toKeep = (effects, Inr (newHistory, info)) \<Longrightarrow>
   effects \<noteq> [] \<and> originalTokenCount info = original \<and>
   (newTokenCount info > original \<longrightarrow>
      compressionStatus info = COMPRESSION_FAILED_INFLATED_TOKEN_COUNT \<and> newHistory = None) \<and>
   (newTokenCount info \<le> original \<longrightarrow>
      compressionStatus info = COMPRESSED \<and> newHistory \<noteq> None)"
  by (auto simp add: summarizeAndValidate_def Let_def split: sum.splits if_splits)

lemma compress_cases:
  "compress env ch force model failedBefore options = (effects, Inr (newHistory, info)) \<Longrightarrow>
   (effects = [] \<and> compressionStatus info = NOOP \<and> newHistory = None) \<or>
   (effects \<noteq> [] \<and>
    (newTokenCount info > originalTokenCount info \<longrightarrow>
       compressionStatus info = COMPRESSION_FAILED_INFLATED_TOKEN_COUNT \<and> newHistory = None) \<and>
    (newTokenCount info \<le> originalTokenCount info \<longrightarrow>
       compressionStatus info = COMPRESSED \<and> newHistory \<noteq> None))"
  unfolding compress_def Let_def
  by (auto simp add: noopInfo_def split: if_splits sum.splits prod.splits
        dest!: summarizeAndValidate_status)

text \<open>
  Claim C1, as the code has it. Whenever \<open>compress\<close> returns: a result with status
  \<open>COMPRESSED\<close> has a new token count at most the original one (equal counts are
  accepted) and carries a new history; a result with status
  \<open>COMPRESSION_FAILED_INFLATED_TOKEN_COUNT\<close> has a new count strictly above the original
  and no new history; and an attempt that reached the summarization call returns the
  inflated status with no new history exactly when the recomputed count is strictly
  greater, and \<open>COMPRESSED\<close> otherwise.
\<close>

theorem compressed_never_larger:
  assumes "compress env ch force model failedBefore options = (effects, Inr (newHistory, info))"
  shows "(compressionStatus info = COMPRESSED \<longrightarrow>
            newTokenCount info \<le> originalTokenCount info \<and> newHistory \<noteq> None) \<and>
         (compressionStatus info = COMPRESSION_FAILED_INFLATED_TOKEN_COUNT \<longrightarrow>
            newTokenCount info > originalTokenCount info \<and> newHistory = None) \<and>
         (effects \<noteq> [] \<and> newTokenCount info > originalTokenCount info \<longrightarrow>
            compressionStatus info = COMPRESSION_FAILED_INFLATED_TOKEN_COUNT \<and> newHistory = None) \<and>
         (effects \<noteq> [] \<and> newTokenCount info \<le> originalTokenCount info \<longrightarrow>
            compressionStatus info = COMPRESSED)"
  using compress_cases [OF assms] by auto

text \<open>
  Claim C9. \<open>compress\<close> returns \<open>NOOP\<close> with no new history, and nothing is seen of it
  outside (no summarization call, no telemetry event), whenever the curated history is
  empty, or a previous attempt failed and this one is not forced, or this one is not
  forced and the original token count is below the threshold (0.5 unless configured)
  times the model's token limit, or the split gives an empty history to compress.
\<close>

theorem compress_noop_cases:
  "length (curatedHistory ch) = 0 \<or> (failedBefore \<and> \<not> force) \<or>
   (\<not> force \<and> real_of_int (lastPromptTokenCount ch) <
       (case compressionThreshold env of None \<Rightarrow> 5 / 10 | Some t \<Rightarrow> t) *
         real_of_int (tokenLimit env model)) \<or>
   (\<exists>toKeep. splitHistory (jsonLength env) (curatedHistory ch) options = Inr ([], toKeep)) \<Longrightarrow>
   \<exists>info. compress env ch force model failedBefore options = ([], Inr (None, info)) \<and>
          compressionStatus info = NOOP"
  unfolding compress_def Let_def DEFAULT_COMPRESSION_TOKEN_THRESHOLD_def
  by (auto simp add: noopInfo_def split: option.splits)


lemmas compress_eval =
  compress_def splitHistory_def summarizeAndValidate_def extractDiscardedContextSummary_def
  exampleCollaborators_def exampleChat_def exampleTwoMessages_def exampleRequest_def
  exampleNewHistory_def exampleInfo_def exampleSummary_def tenChars_def noopInfo_def
  numberOrZero_def COMPRESSION_PRESERVE_THRESHOLD_def DEFAULT_COMPRESSION_TOKEN_THRESHOLD_def
  trim_def isWhiteSpace_def split_eval

lemma compress_equal_count:
  "compress (exampleCollaborators 100) (exampleChat exampleTwoMessages 100) True ''gemini-pro''
     False None =
   ([SummarizationCall exampleRequest, ChatCompressionEvent 100 100 False 0 2 Percentage],
    Inr (Some exampleNewHistory, exampleInfo 100 100 COMPRESSED))"
  by (simp add: compress_eval)

lemma compress_inflated:
  "compress (exampleCollaborators 10000) (exampleChat exampleTwoMessages 10) True ''gemini-pro''
     False None =
   ([SummarizationCall exampleRequest, ChatCompressionEvent 10 10000 False 0 2 Percentage],
    Inr (None, exampleInfo 10 10000 COMPRESSION_FAILED_INFLATED_TOKEN_COUNT))"
  by (simp add: compress_eval)

theorem compressed_never_larger_witness:
  "compress (exampleCollaborators 10000) (exampleChat exampleTwoMessages 10) True ''gemini-pro''
     False None =
   ([SummarizationCall exampleRequest, ChatCompressionEvent 10 10000 False 0 2 Percentage],
    Inr (None, exampleInfo 10 10000 COMPRESSION_FAILED_INFLATED_TOKEN_COUNT)) \<and>
   originalTokenCount (exampleInfo 10 10000 COMPRESSION_FAILED_INFLATED_TOKEN_COUNT)
     < newTokenCount (exampleInfo 10 10000 COMPRESSION_FAILED_INFLATED_TOKEN_COUNT) \<and>
   compress (exampleCollaborators 100) (exampleChat exampleTwoMessages 100) True ''gemini-pro''
     False None =
   ([SummarizationCall exampleRequest, ChatCompressionEvent 100 100 False 0 2 Percentage],
    Inr (Some exampleNewHistory, exampleInfo 100 100 COMPRESSED)) \<and>
   newTokenCount (exampleInfo 100 100 COMPRESSED) \<le> originalTokenCount (exampleInfo 100 100 COMPRESSED)"
  using compressed_never_larger [OF compress_inflated] compressed_never_larger [OF compress_equal_count]
    compress_inflated compress_equal_count
  by (simp add: exampleInfo_def)

text \<open>
  Claim C1 as the specification states it, a strictly smaller count for every
  \<open>COMPRESSED\<close> result, fails when the recomputed count equals the original one.
\<close>

theorem compressed_counterexample:
  "snd (compress (exampleCollaborators 100) (exampleChat exampleTwoMessages 100) True
          ''gemini-pro'' False None) =
     Inr (Some exampleNewHistory, exampleInfo 100 100 COMPRESSED) \<and>
   compressionStatus (exampleInfo 100 100 COMPRESSED) = COMPRESSED \<and>
   \<not> newTokenCount (exampleInfo 100 100 COMPRESSED)
       < originalTokenCount (exampleInfo 100 100 COMPRESSED)"
  by (simp add: compress_equal_count exampleInfo_def)

theorem compress_noop_cases_witness:
  "compress (exampleCollaborators 100) (exampleChat [] 100) True ''gemini-pro'' False None =
     ([], Inr (None, noopInfo 0 0)) \<and>
   compress (exampleCollaborators 100) (exampleChat exampleTwoMessages 900000) False
     ''gemini-pro'' True None = ([], Inr (None, noopInfo 0 0)) \<and>
   compress (exampleCollaborators 100) (exampleChat exampleTwoMessages 10) False
     ''gemini-pro'' False None = ([], Inr (None, noopInfo 10 10)) \<and>
   splitHistory tenChars [textContent ''user'' ''msg1''] None =
     Inr ([], [textContent ''user'' ''msg1'']) \<and>
   compress (exampleCollaborators 100) (exampleChat [textContent ''user'' ''msg1''] 900000) True
     ''gemini-pro'' False None = ([], Inr (None, noopInfo 900000 900000))"
proof -
  have split: "splitHistory tenChars [textContent ''user'' ''msg1''] None =
     Inr ([], [textContent ''user'' ''msg1''])"
    by (simp add: compress_eval)
  then have "\<exists>toKeep. splitHistory (jsonLength (exampleCollaborators 100))
      (curatedHistory (exampleChat [textContent ''user'' ''msg1''] 900000)) None = Inr ([], toKeep)"
    by (simp add: exampleCollaborators_def exampleChat_def)
  with compress_noop_cases [of "exampleChat [] 100" False True "exampleCollaborators 100"
      "''gemini-pro''" None]
    compress_noop_cases [of "exampleChat exampleTwoMessages 900000" True False
      "exampleCollaborators 100" "''gemini-pro''" None]
    compress_noop_cases [of "exampleChat exampleTwoMessages 10" False False
      "exampleCollaborators 100" "''gemini-pro''" None]
    compress_noop_cases [of "exampleChat [textContent ''user'' ''msg1''] 900000" False True
      "exampleCollaborators 100" "''gemini-pro''" None]
    split
  show ?thesis
    by (simp add: compress_eval)
qed

section \<open>The compression lock\<close>

















end
